theory Spec2Isabelle
  imports Complex_Main
begin

section \<open>PhotoWatermark: a shallow embedding of photo_watermark.py\<close>

text \<open>
  The program stamps a date onto photographs. It has three functions:
  \<^item> \<open>get_exif_date\<close> (lines 17-44) reads the capture date of an image,
  \<^item> \<open>add_watermark_to_image\<close> (lines 47-131) draws the text and saves a copy,
  \<^item> \<open>process_path\<close> (lines 134-197) walks a file or a directory and counts.

  Strings are lists of 8-bit characters, so the model speaks about ASCII text. Python's
  unbounded integers are \<open>int\<close>. A Python exception is a value of type \<open>exn\<close>, and a
  computation that prints, writes or raises is a pair of the effects it had and of its
  result or exception.
\<close>

subsection \<open>Exceptions, effects and computations\<close>

text \<open>
  Every constructor of \<open>exn\<close> stands for a subclass of Python's \<open>Exception\<close>: these are
  what the library calls of the program raise, and what \<open>except Exception\<close> and a bare
  \<open>except\<close> both catch.
\<close>

datatype exn = ValueError | TypeError | AttributeError | OSError | OtherException

datatype font = TrueTypeFont string int | DefaultFont

text \<open>The messages the program prints, one constructor per \<open>print\<close> call of the source.\<close>

datatype msg =
    ExifReadError string exn
  | WarnNoExifDate string
  | WarnNoChineseFont
  | SavedTo string
  | ProcessingError string exn
  | PathNotExist string
  | WarnUnsupported string
  | Done
  | TotalCount int
  | SuccessCount int
  | FailedCount int

datatype effect =
    Print msg
  | DrawText "int \<times> int" string font "int list"
  | Makedirs string
  | Save string

type_synonym 'a io = "effect list \<times> (exn + 'a)"

definition io_return :: "'a \<Rightarrow> 'a io" where
  "io_return x = ([], Inr x)"

definition io_raise :: "exn \<Rightarrow> 'a io" where
  "io_raise e = ([], Inl e)"

definition io_lift :: "exn + 'a \<Rightarrow> 'a io" where
  "io_lift r = ([], r)"

definition io_print :: "msg \<Rightarrow> unit io" where
  "io_print m = ([Print m], Inr ())"

text \<open>An operation of the outside world that either fails or has the effect \<open>eff\<close>.\<close>

definition io_effect :: "exn option \<Rightarrow> effect \<Rightarrow> unit io" where
  "io_effect r eff = (case r of Some e \<Rightarrow> ([], Inl e) | None \<Rightarrow> ([eff], Inr ()))"

text \<open>Sequencing: an exception of the first part skips the rest.\<close>

definition io_bind :: "'a io \<Rightarrow> ('a \<Rightarrow> 'b io) \<Rightarrow> 'b io" where
  "io_bind m f =
     (case m of
        (tr, Inl e) \<Rightarrow> (tr, Inl e)
      | (tr, Inr x) \<Rightarrow> (case f x of (tr', r) \<Rightarrow> (tr @ tr', r)))"

text \<open>\<open>try: m except: h\<close>. The effects \<open>m\<close> had before it raised stay.\<close>

definition io_try :: "'a io \<Rightarrow> (exn \<Rightarrow> 'a io) \<Rightarrow> 'a io" where
  "io_try m h =
     (case m of
        (tr, Inl e) \<Rightarrow> (case h e of (tr', r) \<Rightarrow> (tr @ tr', r))
      | (tr, Inr x) \<Rightarrow> (tr, Inr x))"

subsection \<open>os.path on POSIX\<close>

text \<open>
  The functions of \<open>posixpath\<close> that \<open>process_path\<close> and \<open>add_watermark_to_image\<close> call,
  written after the standard library: \<open>rfind\<close> is \<open>str.rfind\<close> for a single character
  (\<open>-1\<close> when absent), \<open>slice_from\<close> and \<open>slice_to\<close> are \<open>p[i:]\<close> and \<open>p[:i]\<close> for
  \<open>i \<ge> 0\<close>.
\<close>

definition sep :: char where
  "sep = CHR ''/''"

definition rfind :: "string \<Rightarrow> char \<Rightarrow> int" where
  "rfind s c =
     (if c \<in> set s then int (length s) - 1 - int (length (takeWhile (\<lambda>x. x \<noteq> c) (rev s)))
      else - 1)"

definition slice_from :: "string \<Rightarrow> int \<Rightarrow> string" where
  "slice_from p i = drop (nat i) p"

definition slice_to :: "string \<Rightarrow> int \<Rightarrow> string" where
  "slice_to p i = take (nat i) p"

definition rstrip :: "char \<Rightarrow> string \<Rightarrow> string" where
  "rstrip c s = rev (dropWhile (\<lambda>x. x = c) (rev s))"

definition basename :: "string \<Rightarrow> string" where
  "basename p = (let i = rfind p sep + 1 in slice_from p i)"

definition dirname :: "string \<Rightarrow> string" where
  "dirname p =
     (let i = rfind p sep + 1;
          head = slice_to p i
      in if head \<noteq> [] \<and> head \<noteq> replicate (length head) sep then rstrip sep head else head)"

definition join :: "string \<Rightarrow> string \<Rightarrow> string" where
  "join a b =
     (if b \<noteq> [] \<and> hd b = sep then b
      else if a = [] \<or> last a = sep then a @ b
      else a @ [sep] @ b)"

text \<open>
  \<open>splitext(p)[1]\<close>. The loop of \<open>genericpath._splitext\<close> looks for a character that is
  not a dot between the start of the file name and the last dot, and splits at the last
  dot when it finds one.
\<close>

definition splitext_ext :: "string \<Rightarrow> string" where
  "splitext_ext p =
     (let sepIndex = rfind p sep;
          dotIndex = rfind p (CHR ''.'')
      in if dotIndex > sepIndex
            \<and> list_ex (\<lambda>c. c \<noteq> CHR ''.'') (slice_from (slice_to p dotIndex) (sepIndex + 1))
         then slice_from p dotIndex
         else [])"

text \<open>\<open>str.lower\<close> on ASCII.\<close>

definition lower_char :: "char \<Rightarrow> char" where
  "lower_char c =
     (let n = (of_char c :: nat) in if 65 \<le> n \<and> n \<le> 90 then char_of (n + 32) else c)"

definition lower :: "string \<Rightarrow> string" where
  "lower s = map lower_char s"

text \<open>\<open>str.split(sep)\<close> and \<open>sep.join\<close>, for \<open>normpath\<close> and \<open>relpath\<close>.\<close>

fun split_on :: "char \<Rightarrow> string \<Rightarrow> string list" where
  "split_on c [] = [[]]"
| "split_on c (x # xs) =
     (if x = c then [] # split_on c xs
      else (case split_on c xs of
              [] \<Rightarrow> [[x]]
            | w # ws \<Rightarrow> (x # w) # ws))"

fun join_with :: "char \<Rightarrow> string list \<Rightarrow> string" where
  "join_with c [] = []"
| "join_with c [w] = w"
| "join_with c (w # ws) = w @ [c] @ join_with c ws"

definition startswith :: "string \<Rightarrow> string \<Rightarrow> bool" where
  "startswith s pre = (take (length pre) s = pre)"

text \<open>The loop of \<open>normpath\<close> over the components, \<open>new_comps\<close> kept in reverse.\<close>

fun normpath_comps :: "bool \<Rightarrow> string list \<Rightarrow> string list \<Rightarrow> string list" where
  "normpath_comps initial_slashes new_comps [] = rev new_comps"
| "normpath_comps initial_slashes new_comps (cmp # comps) =
     (if cmp = [] \<or> cmp = ''.'' then normpath_comps initial_slashes new_comps comps
      else if cmp \<noteq> ''..'' \<or> (\<not> initial_slashes \<and> new_comps = [])
              \<or> (new_comps \<noteq> [] \<and> hd new_comps = ''..'')
        then normpath_comps initial_slashes (cmp # new_comps) comps
      else if new_comps \<noteq> [] then normpath_comps initial_slashes (tl new_comps) comps
      else normpath_comps initial_slashes new_comps comps)"

definition normpath :: "string \<Rightarrow> string" where
  "normpath path =
     (if path = [] then ''.''
      else
        let initial_slashes =
              (if startswith path ''/'' then
                 (if startswith path ''//'' \<and> \<not> startswith path ''///'' then 2 else 1)
               else (0::nat));
            comps = normpath_comps (initial_slashes \<noteq> 0) [] (split_on sep path);
            p = replicate initial_slashes sep @ join_with sep comps
        in if p = [] then ''.'' else p)"

definition abspath :: "string \<Rightarrow> string \<Rightarrow> string" where
  "abspath cwd path = normpath (if startswith path ''/'' then path else join cwd path)"

fun commonprefix_len :: "string list \<Rightarrow> string list \<Rightarrow> nat" where
  "commonprefix_len (x # xs) (y # ys) = (if x = y then Suc (commonprefix_len xs ys) else 0)"
| "commonprefix_len _ _ = 0"

text \<open>
  \<open>relpath(path, start)\<close> raises \<open>ValueError\<close> on an empty path; \<open>relpath_of\<close> is
  what it computes otherwise.
\<close>

definition relpath_of :: "string \<Rightarrow> string \<Rightarrow> string \<Rightarrow> string" where
  "relpath_of cwd path start =
     (let start_list = filter (\<lambda>x. x \<noteq> []) (split_on sep (abspath cwd start));
          path_list = filter (\<lambda>x. x \<noteq> []) (split_on sep (abspath cwd path));
          i = commonprefix_len start_list path_list;
          rel_list = replicate (length start_list - i) ''..'' @ drop i path_list
      in if rel_list = [] then ''.'' else foldl join (hd rel_list) (tl rel_list))"

definition relpath :: "string \<Rightarrow> string \<Rightarrow> string \<Rightarrow> exn + string" where
  "relpath cwd path start =
     (if path = [] then Inl ValueError else Inr (relpath_of cwd path start))"

subsection \<open>datetime.strptime and strftime\<close>

text \<open>
  \<open>datetime.strptime\<close> turns the format into a regular expression, takes the first
  match that the backtracking matcher finds at the start of the string, raises
  \<open>ValueError\<close> when there is none or when text is left over, and then builds the
  \<open>datetime\<close>, which raises \<open>ValueError\<close> for a year, day or second out of range.
  The model follows that: a directive yields its possible readings in the order of the
  alternatives of its expression, and \<open>match_fmt\<close> lists the matches of a whole format in
  the order backtracking visits them.

    \<^item> \<open>%Y\<close> is \<open>\d\d\d\d\<close>, \<open>%m\<close> is \<open>1[0-2]|0[1-9]|[1-9]\<close>,
      \<open>%d\<close> is \<open>3[0-1]|[1-2]\d|0[1-9]|[1-9]| [1-9]\<close>,
    \<^item> \<open>%H\<close> is \<open>2[0-3]|[0-1]\d|\d\<close>, \<open>%M\<close> is \<open>[0-5]\d|\d\<close>,
      \<open>%S\<close> is \<open>6[0-1]|[0-5]\d|\d\<close>,
    \<^item> white space in the format is \<open>\s+\<close>, any other character is itself.
\<close>

record datetime =
  year :: nat
  month :: nat
  day :: nat
  hour :: nat
  minute :: nat
  second :: nat

datatype directive = DY | Dm | Dd | DH | DM | DS | DSpace | DLit char

definition rng :: "char \<Rightarrow> char \<Rightarrow> char \<Rightarrow> bool" where
  "rng lo hi c = ((of_char lo :: nat) \<le> of_char c \<and> (of_char c :: nat) \<le> of_char hi)"

definition is_digit :: "char \<Rightarrow> bool" where
  "is_digit c = rng (CHR ''0'') (CHR ''9'') c"

definition dval :: "char \<Rightarrow> nat" where
  "dval c = of_char c - 48"

text \<open>The ASCII characters that \<open>\s\<close> matches: tab to carriage return, 28 to 31, space.\<close>

definition is_space :: "char \<Rightarrow> bool" where
  "is_space c = (let n = (of_char c :: nat) in (9 \<le> n \<and> n \<le> 13) \<or> (28 \<le> n \<and> n \<le> 31) \<or> n = 32)"

text \<open>One alternative of two characters, of one character, and \<open> [1-9]\<close>.\<close>

definition two :: "(char \<Rightarrow> bool) \<Rightarrow> (char \<Rightarrow> bool) \<Rightarrow> string \<Rightarrow> (nat \<times> string) list" where
  "two p q s =
     (case s of
        a # b # r \<Rightarrow> if p a \<and> q b then [(10 * dval a + dval b, r)] else []
      | _ \<Rightarrow> [])"

definition one :: "(char \<Rightarrow> bool) \<Rightarrow> string \<Rightarrow> (nat \<times> string) list" where
  "one p s = (case s of a # r \<Rightarrow> if p a then [(dval a, r)] else [] | _ \<Rightarrow> [])"

definition space_one :: "string \<Rightarrow> (nat \<times> string) list" where
  "space_one s =
     (case s of
        a # b # r \<Rightarrow> if a = CHR '' '' \<and> rng (CHR ''1'') (CHR ''9'') b then [(dval b, r)] else []
      | _ \<Rightarrow> [])"

definition four_digits :: "string \<Rightarrow> (nat \<times> string) list" where
  "four_digits s =
     (case s of
        a # b # c # d # r \<Rightarrow>
          if is_digit a \<and> is_digit b \<and> is_digit c \<and> is_digit d
          then [(1000 * dval a + 100 * dval b + 10 * dval c + dval d, r)] else []
      | _ \<Rightarrow> [])"

text \<open>\<open>\s+\<close> is greedy: the longest run first, then shorter ones, never an empty one.\<close>

fun spaces1 :: "string \<Rightarrow> string list" where
  "spaces1 [] = []"
| "spaces1 (a # r) = (if is_space a then spaces1 r @ [r] else [])"

fun readings :: "directive \<Rightarrow> string \<Rightarrow> (nat \<times> string) list" where
  "readings DY s = four_digits s"
| "readings Dm s =
     two (rng (CHR ''1'') (CHR ''1'')) (rng (CHR ''0'') (CHR ''2'')) s
     @ two (rng (CHR ''0'') (CHR ''0'')) (rng (CHR ''1'') (CHR ''9'')) s
     @ one (rng (CHR ''1'') (CHR ''9'')) s"
| "readings Dd s =
     two (rng (CHR ''3'') (CHR ''3'')) (rng (CHR ''0'') (CHR ''1'')) s
     @ two (rng (CHR ''1'') (CHR ''2'')) is_digit s
     @ two (rng (CHR ''0'') (CHR ''0'')) (rng (CHR ''1'') (CHR ''9'')) s
     @ one (rng (CHR ''1'') (CHR ''9'')) s
     @ space_one s"
| "readings DH s =
     two (rng (CHR ''2'') (CHR ''2'')) (rng (CHR ''0'') (CHR ''3'')) s
     @ two (rng (CHR ''0'') (CHR ''1'')) is_digit s
     @ one is_digit s"
| "readings DM s =
     two (rng (CHR ''0'') (CHR ''5'')) is_digit s
     @ one is_digit s"
| "readings DS s =
     two (rng (CHR ''6'') (CHR ''6'')) (rng (CHR ''0'') (CHR ''1'')) s
     @ two (rng (CHR ''0'') (CHR ''5'')) is_digit s
     @ one is_digit s"
| "readings DSpace s = map (\<lambda>r. (0, r)) (spaces1 s)"
| "readings (DLit c) s = (case s of a # r \<Rightarrow> if a = c then [(0, r)] else [] | _ \<Rightarrow> [])"

fun store :: "directive \<Rightarrow> nat \<Rightarrow> datetime \<Rightarrow> datetime" where
  "store DY v t = t\<lparr>year := v\<rparr>"
| "store Dm v t = t\<lparr>month := v\<rparr>"
| "store Dd v t = t\<lparr>day := v\<rparr>"
| "store DH v t = t\<lparr>hour := v\<rparr>"
| "store DM v t = t\<lparr>minute := v\<rparr>"
| "store DS v t = t\<lparr>second := v\<rparr>"
| "store _ v t = t"

fun match_fmt :: "directive list \<Rightarrow> datetime \<Rightarrow> string \<Rightarrow> (datetime \<times> string) list" where
  "match_fmt [] t s = [(t, s)]"
| "match_fmt (d # ds) t s =
     concat (map (\<lambda>(v, r). match_fmt ds (store d v t) r) (readings d s))"

definition is_leap :: "nat \<Rightarrow> bool" where
  "is_leap y = (y mod 4 = 0 \<and> (y mod 100 \<noteq> 0 \<or> y mod 400 = 0))"

definition days_in_month :: "nat \<Rightarrow> nat \<Rightarrow> nat" where
  "days_in_month y m =
     (if m = 2 then (if is_leap y then 29 else 28)
      else if m \<in> {4, 6, 9, 11} then 30 else 31)"

text \<open>What the constructor of \<open>datetime\<close> accepts.\<close>

definition valid_datetime :: "datetime \<Rightarrow> bool" where
  "valid_datetime t =
     (1 \<le> year t \<and> year t \<le> 9999 \<and> 1 \<le> month t \<and> month t \<le> 12
      \<and> 1 \<le> day t \<and> day t \<le> days_in_month (year t) (month t)
      \<and> hour t \<le> 23 \<and> minute t \<le> 59 \<and> second t \<le> 59)"

text \<open>The fields a format does not set: 1900-01-01 00:00:00.\<close>

definition default_datetime :: datetime where
  "default_datetime = \<lparr>year = 1900, month = 1, day = 1, hour = 0, minute = 0, second = 0\<rparr>"

definition strptime :: "string \<Rightarrow> directive list \<Rightarrow> exn + datetime" where
  "strptime s fmt =
     (case match_fmt fmt default_datetime s of
        [] \<Rightarrow> Inl ValueError
      | (t, rest) # _ \<Rightarrow>
          if rest \<noteq> [] then Inl ValueError
          else if valid_datetime t then Inr t
          else Inl ValueError)"

text \<open>\<open>'%Y:%m:%d %H:%M:%S'\<close> and \<open>'%Y:%m:%d'\<close>.\<close>

definition fmt_datetime :: "directive list" where
  "fmt_datetime =
     [DY, DLit (CHR '':''), Dm, DLit (CHR '':''), Dd, DSpace,
      DH, DLit (CHR '':''), DM, DLit (CHR '':''), DS]"

definition fmt_date :: "directive list" where
  "fmt_date = [DY, DLit (CHR '':''), Dm, DLit (CHR '':''), Dd]"

text \<open>
  \<open>strftime('%Y-%m-%d')\<close>, with the year in four digits and month and day in two, as the
  library reference gives it (a C library that does not pad \<open>%Y\<close> prints a year below
  1000 shorter).
\<close>

definition digit_char :: "nat \<Rightarrow> char" where
  "digit_char n = char_of (48 + n mod 10)"

definition strftime_Ymd :: "datetime \<Rightarrow> string" where
  "strftime_Ymd t =
     [digit_char (year t div 1000), digit_char (year t div 100),
      digit_char (year t div 10), digit_char (year t), CHR ''-'',
      digit_char (month t div 10), digit_char (month t), CHR ''-'',
      digit_char (day t div 10), digit_char (day t)]"

subsection \<open>The outside world\<close>

text \<open>
  An EXIF value is a string or something else (bytes, a number, a tuple). An opened image
  has a size and the result of \<open>img._getexif()\<close>: an exception, \<open>None\<close>, or the
  dictionary from tag numbers to values, kept as an association list.
\<close>

datatype exif_value = ExifStr string | ExifOther

record image =
  img_size :: "int \<times> int"
  img_getexif :: "exn + (int \<times> exif_value) list option"

text \<open>
  What the imaging library, the clock and the file system answer. Each operation that can
  fail returns its exception; \<open>os_walk\<close> is the sequence of triples
  \<open>(root, dirs, files)\<close> that \<open>os.walk\<close> yields.
\<close>

record env =
  Image_open :: "string \<Rightarrow> exn + image"
  ImageDraw_Draw :: "image \<Rightarrow> exn option"
  ImageFont_truetype :: "string \<Rightarrow> int \<Rightarrow> exn + font"
  ImageFont_load_default :: "exn + font"
  draw_textsize :: "string \<Rightarrow> font \<Rightarrow> exn + (int \<times> int)"
  ImageColor_getrgb :: "string \<Rightarrow> exn + int list"
  draw_text :: "int \<times> int \<Rightarrow> string \<Rightarrow> font \<Rightarrow> int list \<Rightarrow> exn option"
  os_makedirs :: "string \<Rightarrow> exn option"
  img_save :: "string \<Rightarrow> exn option"
  datetime_now :: datetime
  os_path_exists :: "string \<Rightarrow> bool"
  os_path_isdir :: "string \<Rightarrow> bool"
  os_path_isfile :: "string \<Rightarrow> bool"
  os_walk :: "string \<Rightarrow> (string \<times> string list \<times> string list) list"
  os_getcwd :: string

text \<open>The \<open>color\<close> argument: a string, or a value that is not one (a tuple of numbers).\<close>

datatype color = ColorStr string | ColorTuple "int list"

subsection \<open>get_exif_date (lines 17-44)\<close>

text \<open>
  \<open>strptime\<close> raises \<open>TypeError\<close> for an argument that is not a string, and a value
  that is not a string has no \<open>split\<close> that takes one.
\<close>

definition strptime_value :: "exif_value \<Rightarrow> directive list \<Rightarrow> exn + datetime" where
  "strptime_value v fmt = (case v of ExifStr s \<Rightarrow> strptime s fmt | ExifOther \<Rightarrow> Inl TypeError)"

text \<open>\<open>date_str.split(' ')[0]\<close>: the text before the first space.\<close>

definition split_space_0 :: "exif_value \<Rightarrow> exn + exif_value" where
  "split_space_0 v =
     (case v of
        ExifStr s \<Rightarrow> Inr (ExifStr (takeWhile (\<lambda>c. c \<noteq> CHR '' '') s))
      | ExifOther \<Rightarrow> Inl TypeError)"

definition date_tag :: int where
  "date_tag = 36867"

definition get_exif_date :: "env \<Rightarrow> string \<Rightarrow> string option io" where
  "get_exif_date env image_path =
     io_try
       (io_bind (io_lift (Image_open env image_path)) (\<lambda>img.
        io_bind (io_lift (img_getexif img)) (\<lambda>exif_data.
          case exif_data of
            None \<Rightarrow> io_return None
          | Some d \<Rightarrow>
              if d = [] then io_return None
              else
                (case map_of d date_tag of
                   None \<Rightarrow> io_return None
                 | Some date_str \<Rightarrow>
                     io_try
                       (io_bind (io_lift (strptime_value date_str fmt_datetime)) (\<lambda>date_obj.
                        io_return (Some (strftime_Ymd date_obj))))
                       (\<lambda>e. if e = ValueError then
                              io_try
                                (io_bind (io_lift (split_space_0 date_str)) (\<lambda>part.
                                 io_bind (io_lift (strptime_value part fmt_date)) (\<lambda>date_obj.
                                 io_return (Some (strftime_Ymd date_obj)))))
                                (\<lambda>_. io_return None)
                            else io_raise e)))))
       (\<lambda>e. io_bind (io_print (ExifReadError image_path e)) (\<lambda>_. io_return None))"

subsection \<open>add_watermark_to_image (lines 47-131)\<close>

text \<open>Python's truth value of \<open>None\<close> or a string.\<close>

definition truthy :: "string option \<Rightarrow> bool" where
  "truthy x = (case x of None \<Rightarrow> False | Some s \<Rightarrow> s \<noteq> [])"

text \<open>Lines 66-73: the text to draw.\<close>

definition watermark_text_of :: "env \<Rightarrow> string \<Rightarrow> string option \<Rightarrow> string io" where
  "watermark_text_of env image_path default_text =
     io_bind (get_exif_date env image_path) (\<lambda>watermark_text.
       if \<not> truthy watermark_text then
         (if truthy default_text then io_return (case default_text of Some t \<Rightarrow> t | None \<Rightarrow> [])
          else io_bind (io_print (WarnNoExifDate image_path)) (\<lambda>_.
               io_return (strftime_Ymd (datetime_now env))))
       else io_return (case watermark_text of Some t \<Rightarrow> t | None \<Rightarrow> []))"

text \<open>Lines 76-86: the font, with its two fallbacks.\<close>

definition load_font :: "env \<Rightarrow> int \<Rightarrow> font io" where
  "load_font env font_size =
     io_try (io_lift (ImageFont_truetype env ''C:/Windows/Fonts/simhei.ttf'' font_size))
       (\<lambda>_. io_try
               (io_lift (ImageFont_truetype env
                  ''/usr/share/fonts/truetype/wqy/wqy-microhei.ttc'' font_size))
               (\<lambda>_. io_bind (io_lift (ImageFont_load_default env)) (\<lambda>font.
                    io_bind (io_print WarnNoChineseFont) (\<lambda>_. io_return font))))"

text \<open>Lines 92-105: where the text goes. \<open>//\<close> is floor division, as \<open>div\<close> on \<open>int\<close>.\<close>

definition text_position :: "string \<Rightarrow> int \<Rightarrow> int \<Rightarrow> int \<Rightarrow> int \<Rightarrow> int \<times> int" where
  "text_position position width height text_width text_height =
     (let margin = 10 in
      if position = ''top-left'' then (margin, margin)
      else if position = ''top-right'' then (width - text_width - margin, margin)
      else if position = ''bottom-left'' then (margin, height - text_height - margin)
      else if position = ''bottom-right''
        then (width - text_width - margin, height - text_height - margin)
      else if position = ''center''
        then ((width - text_width) div 2, (height - text_height) div 2)
      else (width - text_width - margin, height - text_height - margin))"

text \<open>
  \<open>int(255 * opacity / 100)\<close>: \<open>/\<close> is the division of floating-point numbers and
  \<open>int\<close> cuts the fraction off, towards zero. The product is an integer; while it is
  below \<open>2 ^ 53\<close> in size the quotient in double precision has the same integer part as
  the exact quotient, which is what \<open>opacity_alpha\<close> computes.
\<close>

definition opacity_alpha :: "int \<Rightarrow> int" where
  "opacity_alpha opacity =
     (let n = 255 * opacity in if 0 \<le> n then n div 100 else - ((- n) div 100))"

text \<open>Lines 109-116: the fill colour.\<close>

definition fill_color :: "env \<Rightarrow> color \<Rightarrow> int \<Rightarrow> int list io" where
  "fill_color env color opacity =
     (case color of
        ColorStr name \<Rightarrow>
          io_bind (io_lift (ImageColor_getrgb env name)) (\<lambda>rgb_color.
          io_return (rgb_color @ [opacity_alpha opacity]))
      | ColorTuple t \<Rightarrow> io_return t)"

definition add_watermark_body ::
  "env \<Rightarrow> string \<Rightarrow> string \<Rightarrow> int \<Rightarrow> color \<Rightarrow> string \<Rightarrow> int \<Rightarrow> string option \<Rightarrow> bool io" where
  "add_watermark_body env image_path output_dir font_size color position opacity default_text =
     io_bind (io_lift (Image_open env image_path)) (\<lambda>img.
     io_bind (io_lift (case ImageDraw_Draw env img of Some e \<Rightarrow> Inl e | None \<Rightarrow> Inr ())) (\<lambda>_.
     case img_size img of (width, height) \<Rightarrow>
     io_bind (watermark_text_of env image_path default_text) (\<lambda>watermark_text.
     io_bind (load_font env font_size) (\<lambda>font.
     io_bind (io_lift (draw_textsize env watermark_text font)) (\<lambda>(text_width, text_height).
     case text_position position width height text_width text_height of (text_x, text_y) \<Rightarrow>
     io_bind (fill_color env color opacity) (\<lambda>rgba_color.
     io_bind (io_effect (draw_text env (text_x, text_y) watermark_text font rgba_color)
                (DrawText (text_x, text_y) watermark_text font rgba_color)) (\<lambda>_.
     io_bind (io_effect (os_makedirs env output_dir) (Makedirs output_dir)) (\<lambda>_.
     let output_path = join output_dir (basename image_path) in
     io_bind (io_effect (img_save env output_path) (Save output_path)) (\<lambda>_.
     io_bind (io_print (SavedTo output_path)) (\<lambda>_.
     io_return True))))))))))"

definition add_watermark_to_image ::
  "env \<Rightarrow> string \<Rightarrow> string \<Rightarrow> int \<Rightarrow> color \<Rightarrow> string \<Rightarrow> int \<Rightarrow> string option \<Rightarrow> bool io" where
  "add_watermark_to_image env image_path output_dir font_size color position opacity default_text =
     io_try
       (add_watermark_body env image_path output_dir font_size color position opacity
          default_text)
       (\<lambda>e. io_bind (io_print (ProcessingError image_path e)) (\<lambda>_. io_return False))"

subsection \<open>process_path (lines 134-197)\<close>

definition supported_formats :: "string list" where
  "supported_formats = [''.jpg'', ''.jpeg'', ''.png'', ''.bmp'', ''.tiff'', ''.gif'']"

text \<open>Lines 153-160: the output directory.\<close>

definition output_dir_of :: "env \<Rightarrow> string \<Rightarrow> string" where
  "output_dir_of env input_path =
     (if os_path_isdir env input_path then
        (let parent_dir = (if dirname input_path \<noteq> [] then dirname input_path else ''.'');
             dir_name = basename input_path
         in join parent_dir (dir_name @ ''_watermark''))
      else
        (let parent_dir = dirname input_path;
             dir_name = basename parent_dir
         in join parent_dir (dir_name @ ''_watermark'')))"

text \<open>
  Lines 178-191: the files of one directory \<open>root_dir\<close> of the walk (\<open>root\<close> in the
  source). The pair is
  \<open>(total_count, success_count)\<close>.
\<close>

fun process_files ::
  "env \<Rightarrow> string \<Rightarrow> string \<Rightarrow> int \<Rightarrow> color \<Rightarrow> string \<Rightarrow> int \<Rightarrow> string option \<Rightarrow>
   string \<Rightarrow> string list \<Rightarrow> int \<times> int \<Rightarrow> (int \<times> int) io" where
  "process_files env input_path output_dir font_size color position opacity default_text
     root_dir [] counts = io_return counts"
| "process_files env input_path output_dir font_size color position opacity default_text
     root_dir (file # files) counts =
     (case counts of (total_count, success_count) \<Rightarrow>
      let file_ext = lower (splitext_ext file) in
      if file_ext \<in> set supported_formats then
        (let total_count = total_count + 1;
             file_path = join root_dir file
         in io_bind (io_lift (relpath (os_getcwd env) root_dir input_path)) (\<lambda>rel_path.
            let target_output_dir =
                  (if rel_path = ''.'' then output_dir else join output_dir rel_path)
            in io_bind (add_watermark_to_image env file_path target_output_dir font_size color
                          position opacity default_text) (\<lambda>ok.
               process_files env input_path output_dir font_size color position opacity
                 default_text root_dir files
                 (total_count, if ok then success_count + 1 else success_count))))
      else
        process_files env input_path output_dir font_size color position opacity default_text
          root_dir files (total_count, success_count))"

text \<open>Line 177: the directories of the walk.\<close>

fun process_walk ::
  "env \<Rightarrow> string \<Rightarrow> string \<Rightarrow> int \<Rightarrow> color \<Rightarrow> string \<Rightarrow> int \<Rightarrow> string option \<Rightarrow>
   (string \<times> string list \<times> string list) list \<Rightarrow> int \<times> int \<Rightarrow> (int \<times> int) io" where
  "process_walk env input_path output_dir font_size color position opacity default_text
     [] counts = io_return counts"
| "process_walk env input_path output_dir font_size color position opacity default_text
     ((root_dir, dirs, files) # rest) counts =
     io_bind (process_files env input_path output_dir font_size color position opacity
                default_text root_dir files counts) (\<lambda>counts'.
     process_walk env input_path output_dir font_size color position opacity default_text
       rest counts')"

definition print_summary :: "int \<times> int \<Rightarrow> unit io" where
  "print_summary counts =
     (case counts of (total_count, success_count) \<Rightarrow>
      io_bind (io_print Done) (\<lambda>_.
      io_bind (io_print (TotalCount total_count)) (\<lambda>_.
      io_bind (io_print (SuccessCount success_count)) (\<lambda>_.
      io_print (FailedCount (total_count - success_count))))))"

definition process_path ::
  "env \<Rightarrow> string \<Rightarrow> int \<Rightarrow> color \<Rightarrow> string \<Rightarrow> int \<Rightarrow> string option \<Rightarrow> unit io" where
  "process_path env input_path font_size color position opacity default_text =
     (if \<not> os_path_exists env input_path then io_print (PathNotExist input_path)
      else
        let output_dir = output_dir_of env input_path in
        io_bind
          (if os_path_isfile env input_path then
             (let file_ext = lower (splitext_ext input_path) in
              if file_ext \<in> set supported_formats then
                io_bind (add_watermark_to_image env input_path output_dir font_size color
                           position opacity default_text) (\<lambda>ok.
                io_return (1, if ok then 1 else 0))
              else
                io_bind (io_print (WarnUnsupported input_path)) (\<lambda>_. io_return (0, 0)))
           else
             process_walk env input_path output_dir font_size color position opacity
               default_text (os_walk env input_path) (0, 0))
          print_summary)"

subsection \<open>Notions used to state the properties\<close>








text \<open>
  \<open>strftime('%Y:%m:%d %H:%M:%S')\<close>, the way test_with_exif.py (line 48) writes a capture
  date: the form \<open>YYYY:MM:DD HH:MM:SS\<close>.
\<close>

definition strftime_exif :: "datetime \<Rightarrow> string" where
  "strftime_exif t =
     [digit_char (year t div 1000), digit_char (year t div 100),
      digit_char (year t div 10), digit_char (year t), CHR '':'',
      digit_char (month t div 10), digit_char (month t), CHR '':'',
      digit_char (day t div 10), digit_char (day t), CHR '' '',
      digit_char (hour t div 10), digit_char (hour t), CHR '':'',
      digit_char (minute t div 10), digit_char (minute t), CHR '':'',
      digit_char (second t div 10), digit_char (second t)]"

subsection \<open>A concrete world\<close>

text \<open>
  A directory \<open>photos\<close> with \<open>img1.jpg\<close> (taken 2023-10-15), \<open>notes.txt\<close> and
  \<open>sub/a.jpg\<close> (no capture date), a directory \<open>docs\<close> with only \<open>notes.txt\<close>, a
  directory \<open>mixed\<close> with \<open>broken.jpg\<close>, which does not open, and \<open>ok.png\<close>, a file
  \<open>readme.txt\<close>; only the built-in font; the day is 2026-11-03.
\<close>

definition example_image :: "(int \<times> exif_value) list option \<Rightarrow> image" where
  "example_image exif = \<lparr>img_size = (600, 400), img_getexif = Inr exif\<rparr>"

definition example_env :: env where
  "example_env =
     \<lparr>Image_open = (\<lambda>p.
         if p = ''photos/img1.jpg''
           then Inr (example_image (Some [(36867, ExifStr ''2023:10:15 14:30:25'')]))
         else if p = ''photos/sub/a.jpg'' then Inr (example_image None)
         else if p = ''dateonly.jpg''
           then Inr (example_image (Some [(36867, ExifStr ''2023:10:15'')]))
         else if p = ''odd.jpg'' then Inr (example_image (Some [(36867, ExifOther)]))
         else if p = ''other.jpg'' then Inr (example_image (Some [(271, ExifStr ''Cam'')]))
         else if p = ''mixed/ok.png'' then Inr (example_image None)
         else Inl OSError),
      ImageDraw_Draw = (\<lambda>_. None),
      ImageFont_truetype = (\<lambda>_ _. Inl OSError),
      ImageFont_load_default = Inr DefaultFont,
      draw_textsize = (\<lambda>t _. Inr (6 * int (length t), 11)),
      ImageColor_getrgb = (\<lambda>c. if c = ''white'' then Inr [255, 255, 255] else Inl ValueError),
      draw_text = (\<lambda>_ _ _ _. None),
      os_makedirs = (\<lambda>_. None),
      img_save = (\<lambda>_. None),
      datetime_now = \<lparr>year = 2026, month = 11, day = 3, hour = 9, minute = 30, second = 0\<rparr>,
      os_path_exists = (\<lambda>p. p \<in> {''photos'', ''photos/'', ''docs'', ''mixed'', ''readme.txt''}),
      os_path_isdir = (\<lambda>p. p \<in> {''photos'', ''photos/'', ''docs'', ''mixed''}),
      os_path_isfile = (\<lambda>p. p = ''readme.txt''),
      os_walk = (\<lambda>p.
         if p = ''photos''
           then [(''photos'', [''sub''], [''img1.jpg'', ''notes.txt'']),
                 (''photos/sub'', [], [''a.jpg''])]
         else if p = ''photos/''
           then [(''photos/'', [''sub''], [''img1.jpg'', ''notes.txt'']),
                 (''photos/sub'', [], [''a.jpg''])]
         else if p = ''docs'' then [(''docs'', [], [''notes.txt''])]
         else if p = ''mixed'' then [(''mixed'', [], [''broken.jpg'', ''ok.png''])]
         else []),
      os_getcwd = ''/home/u''\<rparr>"

section \<open>Properties\<close>

subsection \<open>Unfolding and evaluation\<close>

lemmas io_defs = io_return_def io_raise_def io_lift_def io_print_def io_effect_def
  io_bind_def io_try_def

lemmas parse_defs = strptime_def fmt_datetime_def fmt_date_def default_datetime_def
  four_digits_def two_def one_def space_one_def is_digit_def rng_def dval_def is_space_def
  valid_datetime_def days_in_month_def is_leap_def strftime_Ymd_def digit_char_def
  strptime_value_def split_space_0_def date_tag_def

lemmas path_defs = sep_def rfind_def slice_from_def slice_to_def rstrip_def basename_def
  dirname_def join_def splitext_ext_def lower_char_def lower_def startswith_def normpath_def
  abspath_def relpath_of_def relpath_def supported_formats_def

lemmas prog_defs = get_exif_date_def truthy_def watermark_text_of_def load_font_def
  text_position_def opacity_alpha_def fill_color_def add_watermark_body_def
  add_watermark_to_image_def output_dir_of_def print_summary_def process_path_def

lemmas world_defs = example_image_def example_env_def

lemma char_of_digits:
  "char_of (48::nat) = CHR ''0''" "char_of (49::nat) = CHR ''1''" "char_of (50::nat) = CHR ''2''"
  "char_of (51::nat) = CHR ''3''" "char_of (52::nat) = CHR ''4''" "char_of (53::nat) = CHR ''5''"
  "char_of (54::nat) = CHR ''6''" "char_of (55::nat) = CHR ''7''" "char_of (56::nat) = CHR ''8''"
  "char_of (57::nat) = CHR ''9''"
  by (rule of_char_eqI[where ?'a = nat], simp)+

subsection \<open>What a call draws\<close>

lemma get_exif_date_cases:
  "(\<exists>r. get_exif_date env image_path = ([], Inr r)) \<or>
   (\<exists>e. get_exif_date env image_path = ([Print (ExifReadError image_path e)], Inr None))"
  unfolding get_exif_date_def
  by (auto simp: io_defs split: sum.splits option.splits prod.splits)

lemma watermark_text_of_prints:
  "DrawText xy wtext font fill \<notin> set (fst (watermark_text_of env image_path default_text))"
  using get_exif_date_cases[of env image_path]
  unfolding watermark_text_of_def
  by (auto simp: io_defs split: sum.splits option.splits prod.splits)

lemma load_font_prints:
  "DrawText xy wtext font fill \<notin> set (fst (load_font env font_size))"
  unfolding load_font_def
  by (auto simp: io_defs split: sum.splits option.splits prod.splits)

lemma fill_color_silent: "fst (fill_color env color opacity) = []"
  unfolding fill_color_def
  by (auto simp: io_defs split: sum.splits color.splits prod.splits)

lemma drawn_text:
  assumes "DrawText xy wtext font fill \<in> set (fst (add_watermark_to_image env image_path
             output_dir font_size color position opacity default_text))"
  shows "\<exists>img tw th. Image_open env image_path = Inr img
           \<and> snd (watermark_text_of env image_path default_text) = Inr wtext
           \<and> draw_textsize env wtext font = Inr (tw, th)
           \<and> xy = text_position position (fst (img_size img)) (snd (img_size img)) tw th
           \<and> snd (fill_color env color opacity) = Inr fill"
proof -
  obtain tr1 r1 where w: "watermark_text_of env image_path default_text = (tr1, r1)"
    by (cases "watermark_text_of env image_path default_text") auto
  obtain tr2 r2 where f: "load_font env font_size = (tr2, r2)"
    by (cases "load_font env font_size") auto
  obtain r3 where c: "fill_color env color opacity = ([], r3)"
    using fill_color_silent[of env color opacity]
    by (cases "fill_color env color opacity") auto
  have n1: "DrawText xy wtext font fill \<notin> set tr1"
    using watermark_text_of_prints[of xy wtext font fill env image_path default_text] w by simp
  have n2: "DrawText xy wtext font fill \<notin> set tr2"
    using load_font_prints[of xy wtext font fill env font_size] f by simp
  show ?thesis
    using assms n1 n2
    unfolding add_watermark_to_image_def add_watermark_body_def w f c
    by (auto simp: io_defs Let_def split: sum.splits option.splits prod.splits if_splits)
qed

subsection \<open>Placement\<close>

text \<open>
  C1: the text is drawn at an anchor computed from the size \<open>(W, H)\<close> of the image, the
  size \<open>(tw, th)\<close> of the text and a margin of 10: \<open>top-left\<close> gives \<open>(10, 10)\<close>,
  \<open>top-right\<close> gives \<open>(W - tw - 10, 10)\<close>, \<open>bottom-left\<close> gives \<open>(10, H - th - 10)\<close>,
  \<open>center\<close> gives the halves of \<open>W - tw\<close> and \<open>H - th\<close> (integer division, rounding
  down), and \<open>bottom-right\<close> and every other value give \<open>(W - tw - 10, H - th - 10)\<close>.
\<close>

theorem anchor_of_drawn_text:
  assumes "DrawText xy wtext font fill \<in> set (fst (add_watermark_to_image env image_path
             output_dir font_size color position opacity default_text))"
  shows "\<exists>img W H tw th. Image_open env image_path = Inr img \<and> img_size img = (W, H)
           \<and> draw_textsize env wtext font = Inr (tw, th)
           \<and> xy = (if position = ''top-left'' then (10, 10)
                   else if position = ''top-right'' then (W - tw - 10, 10)
                   else if position = ''bottom-left'' then (10, H - th - 10)
                   else if position = ''center'' then ((W - tw) div 2, (H - th) div 2)
                   else (W - tw - 10, H - th - 10))"
proof -
  from drawn_text[OF assms] obtain img tw th where
    o: "Image_open env image_path = Inr img" and
    s: "draw_textsize env wtext font = Inr (tw, th)" and
    p: "xy = text_position position (fst (img_size img)) (snd (img_size img)) tw th"
    by blast
  have "xy = (if position = ''top-left'' then (10, 10)
              else if position = ''top-right'' then (fst (img_size img) - tw - 10, 10)
              else if position = ''bottom-left'' then (10, snd (img_size img) - th - 10)
              else if position = ''center''
                then ((fst (img_size img) - tw) div 2, (snd (img_size img) - th) div 2)
              else (fst (img_size img) - tw - 10, snd (img_size img) - th - 10))"
    unfolding p text_position_def Let_def by simp
  with o s show ?thesis
    by (intro exI[of _ img] exI[of _ "fst (img_size img)"] exI[of _ "snd (img_size img)"]
        exI[of _ tw] exI[of _ th]) simp
qed

theorem anchor_of_drawn_text_witness:
  "DrawText (270, 194) ''2023-10-15'' DefaultFont [255, 255, 255, 204]
     \<in> set (fst (add_watermark_to_image example_env ''photos/img1.jpg'' ''out'' 16
                   (ColorStr ''white'') ''center'' 80 None))
   \<and> (\<exists>img W H tw th. Image_open example_env ''photos/img1.jpg'' = Inr img
         \<and> img_size img = (W, H)
         \<and> draw_textsize example_env ''2023-10-15'' DefaultFont = Inr (tw, th)
         \<and> (270, 194) = ((W - tw) div 2, (H - th) div 2))"
proof -
  have h: "DrawText (270, 194) ''2023-10-15'' DefaultFont [255, 255, 255, 204]
     \<in> set (fst (add_watermark_to_image example_env ''photos/img1.jpg'' ''out'' 16
                   (ColorStr ''white'') ''center'' 80 None))"
    by (simp add: io_defs parse_defs prog_defs world_defs path_defs char_of_digits Let_def)
  from anchor_of_drawn_text[OF h] obtain img W H tw th where
    a: "Image_open example_env ''photos/img1.jpg'' = Inr img" "img_size img = (W, H)"
       "draw_textsize example_env ''2023-10-15'' DefaultFont = Inr (tw, th)" and
    b: "(270, 194) = (if ''center'' = ''top-left'' then (10, 10)
                   else if ''center'' = ''top-right'' then (W - tw - 10, 10)
                   else if ''center'' = ''bottom-left'' then (10, H - th - 10)
                   else if ''center'' = ''center'' then ((W - tw) div 2, (H - th) div 2)
                   else (W - tw - 10, H - th - 10))"
    by blast
  from b have c: "(270, 194) = ((W - tw) div 2, (H - th) div 2)"
    by simp
  from a c h show ?thesis by blast
qed

subsection \<open>Opacity and colour\<close>

lemma opacity_alpha_floor:
  assumes "0 \<le> opacity"
  shows "opacity_alpha opacity = \<lfloor>255 * real_of_int opacity / 100\<rfloor>"
proof -
  have "\<lfloor>real_of_int (255 * opacity) / real_of_int 100\<rfloor> = (255 * opacity) div 100"
    by (rule floor_divide_of_int_eq)
  then show ?thesis using assms by (simp add: opacity_alpha_def)
qed

text \<open>
  C2, as the claim states it, fails: at opacity 1 the alpha of the fill is 2, while
  \<open>round(255 * 1 / 100)\<close> is 3.
\<close>

theorem alpha_is_not_rounded:
  "fill_color example_env (ColorStr ''white'') 1 = ([], Inr [255, 255, 255, 2])
   \<and> round (255 * real_of_int 1 / 100) = 3"
  by (simp add: io_defs prog_defs world_defs round_def)

text \<open>
  C2, amended: for an opacity from 0 to 100 and a colour given as a string that the
  library resolves, the fill is the resolved colour followed by the alpha
  \<open>int(255 * opacity / 100)\<close>, the quotient with its fraction cut off; this is the fill
  the text is drawn with, it is 0 at opacity 0 and 255 at opacity 100, and it lies between
  0 and 255.
\<close>

theorem alpha_is_truncated:
  assumes "0 \<le> opacity" and "opacity \<le> 100" and "ImageColor_getrgb env name = Inr rgb"
  shows "fill_color env (ColorStr name) opacity
           = ([], Inr (rgb @ [\<lfloor>255 * real_of_int opacity / 100\<rfloor>]))
         \<and> fill_color env (ColorStr name) 0 = ([], Inr (rgb @ [0]))
         \<and> fill_color env (ColorStr name) 100 = ([], Inr (rgb @ [255]))
         \<and> 0 \<le> \<lfloor>255 * real_of_int opacity / 100\<rfloor>
         \<and> \<lfloor>255 * real_of_int opacity / 100\<rfloor> \<le> 255
         \<and> (DrawText xy wtext font fill \<in> set (fst (add_watermark_to_image env image_path
               output_dir font_size (ColorStr name) position opacity default_text))
             \<longrightarrow> fill = rgb @ [\<lfloor>255 * real_of_int opacity / 100\<rfloor>])"
proof -
  have a: "opacity_alpha opacity = \<lfloor>255 * real_of_int opacity / 100\<rfloor>"
    using assms(1) by (rule opacity_alpha_floor)
  have f: "fill_color env (ColorStr name) opacity = ([], Inr (rgb @ [opacity_alpha opacity]))"
    using assms(3) by (simp add: fill_color_def io_defs)
  have f0: "fill_color env (ColorStr name) 0 = ([], Inr (rgb @ [0]))"
    using assms(3) by (simp add: fill_color_def io_defs opacity_alpha_def)
  have f100: "fill_color env (ColorStr name) 100 = ([], Inr (rgb @ [255]))"
    using assms(3) by (simp add: fill_color_def io_defs opacity_alpha_def)
  have lo: "0 \<le> opacity_alpha opacity" and hi: "opacity_alpha opacity \<le> 255"
    using assms(1,2) by (simp_all add: opacity_alpha_def)
  have d: "fill = rgb @ [opacity_alpha opacity]"
    if "DrawText xy wtext font fill \<in> set (fst (add_watermark_to_image env image_path
          output_dir font_size (ColorStr name) position opacity default_text))"
    using drawn_text[OF that] f by auto
  show ?thesis using f f0 f100 lo hi d unfolding a by blast
qed

theorem alpha_is_truncated_witness:
  "(0::int) \<le> 80 \<and> (80::int) \<le> 100
   \<and> ImageColor_getrgb example_env ''white'' = Inr [255, 255, 255]
   \<and> fill_color example_env (ColorStr ''white'') 80 = ([], Inr [255, 255, 255, 204])
   \<and> DrawText (270, 194) ''2023-10-15'' DefaultFont [255, 255, 255, 204]
        \<in> set (fst (add_watermark_to_image example_env ''photos/img1.jpg'' ''out'' 16
                      (ColorStr ''white'') ''center'' 80 None))"
proof -
  have g: "ImageColor_getrgb example_env ''white'' = Inr [255, 255, 255]"
    by (simp add: world_defs)
  have h: "DrawText (270, 194) ''2023-10-15'' DefaultFont [255, 255, 255, 204]
     \<in> set (fst (add_watermark_to_image example_env ''photos/img1.jpg'' ''out'' 16
                   (ColorStr ''white'') ''center'' 80 None))"
    by (simp add: io_defs parse_defs prog_defs world_defs path_defs char_of_digits Let_def)
  have le1: "(0::int) \<le> 80" and le2: "(80::int) \<le> 100"
    by simp_all
  have fl: "\<lfloor>255 * real_of_int 80 / 100\<rfloor> = (204::int)"
    by simp
  from alpha_is_truncated[OF le1 le2 g]
  have "fill_color example_env (ColorStr ''white'') 80
          = ([], Inr ([255, 255, 255] @ [\<lfloor>255 * real_of_int 80 / 100\<rfloor>]))"
    by blast
  then have f: "fill_color example_env (ColorStr ''white'') 80 = ([], Inr [255, 255, 255, 204])"
    unfolding fl by simp
  show ?thesis using le1 le2 g f h by blast
qed

text \<open>
  C10: a colour that is not a string is the fill as it is, with no alpha appended, and the
  opacity changes nothing of what the call does.
\<close>

theorem tuple_color_ignores_opacity:
  "fill_color env (ColorTuple t) opacity = ([], Inr t)
   \<and> add_watermark_to_image env image_path output_dir font_size (ColorTuple t) position
        opacity default_text
     = add_watermark_to_image env image_path output_dir font_size (ColorTuple t) position
        opacity' default_text
   \<and> (DrawText xy wtext font fill \<in> set (fst (add_watermark_to_image env image_path
         output_dir font_size (ColorTuple t) position opacity default_text))
       \<longrightarrow> fill = t)"
proof -
  have f: "fill_color env (ColorTuple t) o' = ([], Inr t)" for o'
    by (simp add: fill_color_def io_defs)
  have e: "add_watermark_to_image env image_path output_dir font_size (ColorTuple t) position
        opacity default_text
     = add_watermark_to_image env image_path output_dir font_size (ColorTuple t) position
        opacity' default_text"
    unfolding add_watermark_to_image_def add_watermark_body_def f ..
  have d: "fill = t"
    if "DrawText xy wtext font fill \<in> set (fst (add_watermark_to_image env image_path
         output_dir font_size (ColorTuple t) position opacity default_text))"
    using drawn_text[OF that] f by auto
  show ?thesis using f e d by blast
qed

theorem tuple_color_ignores_opacity_witness:
  "DrawText (270, 194) ''2023-10-15'' DefaultFont [255, 0, 0]
     \<in> set (fst (add_watermark_to_image example_env ''photos/img1.jpg'' ''out'' 16
                   (ColorTuple [255, 0, 0]) ''center'' 80 None))
   \<and> add_watermark_to_image example_env ''photos/img1.jpg'' ''out'' 16
        (ColorTuple [255, 0, 0]) ''center'' 80 None
     = add_watermark_to_image example_env ''photos/img1.jpg'' ''out'' 16
        (ColorTuple [255, 0, 0]) ''center'' 0 None"
proof -
  have h: "DrawText (270, 194) ''2023-10-15'' DefaultFont [255, 0, 0]
     \<in> set (fst (add_watermark_to_image example_env ''photos/img1.jpg'' ''out'' 16
                   (ColorTuple [255, 0, 0]) ''center'' 80 None))"
    by (simp add: io_defs parse_defs prog_defs world_defs path_defs char_of_digits Let_def)
  from tuple_color_ignores_opacity[of example_env "[255, 0, 0]" 80 "''photos/img1.jpg''"
      "''out''" 16 "''center''" None 0 "(270, 194)" "''2023-10-15''" DefaultFont "[255, 0, 0]"]
    h
  show ?thesis by blast
qed

subsection \<open>A path that does not exist\<close>



subsection \<open>The batch\<close>














subsection \<open>Unsupported files\<close>




subsection \<open>The output directory\<close>

text \<open>
  C7 asks that the files of a directory \<open>root\<close> go to the sibling \<open>root_watermark\<close>. For
  the directory given as \<open>photos/\<close>, with the separator at its end, \<open>basename\<close> is empty
  and \<open>dirname\<close> is \<open>photos\<close>: the output directory is \<open>photos/_watermark\<close>, inside the
  input directory, and \<open>photos/sub/a.jpg\<close> is written to \<open>photos/_watermark/sub/a.jpg\<close>.
\<close>

theorem trailing_separator_output_dir:
  "os_path_isdir example_env ''photos/''
   \<and> dirname ''photos/'' = ''photos'' \<and> basename ''photos/'' = []
   \<and> output_dir_of example_env ''photos/'' = ''photos/_watermark''
   \<and> process_path example_env ''photos/'' 16 (ColorStr ''white'') ''bottom-right'' 80 None =
      ([Print WarnNoChineseFont,
        DrawText (530, 379) ''2023-10-15'' DefaultFont [255, 255, 255, 204],
        Makedirs ''photos/_watermark'', Save ''photos/_watermark/img1.jpg'',
        Print (SavedTo ''photos/_watermark/img1.jpg''),
        Print (WarnNoExifDate ''photos/sub/a.jpg''), Print WarnNoChineseFont,
        DrawText (530, 379) ''2026-11-03'' DefaultFont [255, 255, 255, 204],
        Makedirs ''photos/_watermark/sub'', Save ''photos/_watermark/sub/a.jpg'',
        Print (SavedTo ''photos/_watermark/sub/a.jpg''), Print Done,
        Print (TotalCount 2), Print (SuccessCount 2), Print (FailedCount 0)],
       Inr ())"
  by (simp add: io_defs parse_defs prog_defs world_defs path_defs char_of_digits Let_def)


subsection \<open>Failures\<close>





end
